theory Spec2Isabelle
  imports Complex_Main
begin

section \<open>Rows and errors\<close>

text \<open>
  A row of Pipeline A is the Python tuple \<open>(label, values)\<close>: a label and the list of
  its cell texts. Text is a list of \<^typ>\<open>char\<close>; a character stands for the code point
  of the same number (U+0000 to U+00FF), so \<open>CHR 0xE4\<close> is the letter a-umlaut.
\<close>

type_synonym row = "string \<times> string list"

text \<open>
  The exceptions the two converters raise, each carrying the numbers its message
  interpolates:
  \<^item> \<open>NoOverviewPage\<close>: \<open>RuntimeError("Keine Seite mit 'Entwicklungsuebersicht' in der PDF gefunden.")\<close>
  \<^item> \<open>PageNotOneBased\<close>: \<open>ValueError("page_number muss 1-basiert sein")\<close>
  \<^item> \<open>PageBeyondEnd n p\<close>: \<open>ValueError(f"PDF hat nur {n} Seiten, angefragt wurde {p}.")\<close>
  \<^item> \<open>NoMonthHeader\<close>: \<open>RuntimeError("Konnte keine 13 Monats-Spalten auf der Seite erkennen.")\<close>
  \<^item> \<open>StructureMismatch s r\<close>: \<open>RuntimeError(f"Struktur hat {s} Zeilen, Ergebnis hat {r} Zeilen.")\<close>
  \<^item> \<open>IndexError\<close>: indexing an empty list
  \<^item> \<open>NoSusaPage\<close>: \<open>RuntimeError("Keine Seite mit 'Summen und Salden' in der PDF gefunden.")\<close>
  \<^item> \<open>StartOutside s n\<close>: \<open>ValueError(f"Startseite {s} liegt ausserhalb der PDF mit {n} Seiten.")\<close>
  \<^item> \<open>EndNotAfterStart e s\<close>: \<open>ValueError(f"Endseite {e} muss groesser als Startseite {s} sein.")\<close>
\<close>

datatype error =
    NoOverviewPage
  | PageNotOneBased
  | PageBeyondEnd nat int
  | NoMonthHeader
  | StructureMismatch nat nat
  | IndexError
  | NoSusaPage
  | StartOutside int nat
  | EndNotAfterStart int int

section \<open>Pipeline A: structural annotation\<close>

definition SECTION_BREAK_AFTER :: "string set" where
  "SECTION_BREAK_AFTER = {
     ''Aktivierte Eigenleistungen'',
     ''Gesamtleistung'',
     ''Material-/Wareneinkauf'',
     ''Rohertrag'',
     ''So. betr. Erl'' @ [CHR 0xF6] @ ''se'',
     ''Betrieblicher Rohertrag'',
     ''Gesamtkosten'',
     ''Betriebsergebnis'',
     ''Neutraler Aufwand'',
     ''Neutraler Ertrag'',
     ''Kontenklasse unbesetzt'',
     ''Ergebnis vor Steuern'',
     ''Steuern Einkommen u. Ertrag'',
     ''Vorl'' @ [CHR 0xE4] @ ''ufiges Ergebnis''}"

definition COST_LABELS :: "string set" where
  "COST_LABELS = {
     ''Personalkosten'',
     ''Raumkosten'',
     ''Betriebliche Steuern'',
     ''Versicherungen/Beitr'' @ [CHR 0xE4] @ ''ge'',
     ''Besondere Kosten'',
     ''Fahrzeugkosten (ohne Steuer)'',
     ''Werbe-/Reisekosten'',
     ''Kosten Warenabgabe'',
     ''Abschreibungen'',
     ''Reparatur/Instandhaltung'',
     ''Sonstige Kosten'',
     ''Gesamtkosten''}"

text \<open>\<open>[""] * n\<close>: a list of \<open>n\<close> empty cells.\<close>

definition empty_cells :: "nat \<Rightarrow> string list" where
  "empty_cells n = replicate n ''''"

text \<open>
  \<open>next((i for i, (label, _) in enumerate(rows) if label in COST_LABELS), None)\<close>:
  the index of the first row whose label is a cost label.
\<close>

fun first_cost_idx :: "row list \<Rightarrow> nat option" where
  "first_cost_idx [] = None"
| "first_cost_idx ((label, values) # rows) =
     (if label \<in> COST_LABELS then Some 0 else map_option Suc (first_cost_idx rows))"

definition ensure_kostenarten :: "row list \<Rightarrow> string list \<Rightarrow> row list" where
  "ensure_kostenarten rows months =
     (let labels = map fst rows in
      if ''Kostenarten:'' \<in> set labels then rows
      else (case first_cost_idx rows of
              None \<Rightarrow> rows
            | Some i \<Rightarrow>
                take i rows @ [(''Kostenarten:'', empty_cells (length months))] @ drop i rows))"

text \<open>The body of the loop of \<open>insert_section_breaks\<close>, appending to \<open>out\<close>.\<close>

fun section_loop :: "nat \<Rightarrow> row list \<Rightarrow> row list" where
  "section_loop months_count [] = []"
| "section_loop months_count ((label, values) # rows) =
     (label, values) #
     (if label \<in> SECTION_BREAK_AFTER then [('''', empty_cells months_count)] else []) @
     section_loop months_count rows"

definition insert_section_breaks :: "row list \<Rightarrow> nat \<Rightarrow> row list" where
  "insert_section_breaks rows months_count =
     [('''', empty_cells months_count)] @ section_loop months_count rows @
     [('''', empty_cells months_count)]"

text \<open>\<open>not label and (not values or all(v == "" for v in values))\<close>\<close>

fun is_blank :: "row \<Rightarrow> bool" where
  "is_blank (label, values) = (label = [] \<and> (values = [] \<or> list_all (\<lambda>v. v = []) values))"

text \<open>The loop of \<open>compress_blank_rows\<close>; the first argument is \<open>prev_blank\<close>.\<close>

fun compress_loop :: "bool \<Rightarrow> row list \<Rightarrow> row list" where
  "compress_loop prev_blank [] = []"
| "compress_loop prev_blank (r # rows) =
     (if is_blank r \<and> prev_blank then compress_loop prev_blank rows
      else r # compress_loop (is_blank r) rows)"

definition compress_blank_rows :: "row list \<Rightarrow> row list" where
  "compress_blank_rows rows = compress_loop False rows"

section \<open>Pipeline A: table assembly\<close>

text \<open>One output row of \<open>build_output_table\<close>.\<close>

fun render_row :: "string list \<Rightarrow> row \<Rightarrow> string list" where
  "render_row header (label, values) =
     (if label = [] \<and> values \<noteq> [] \<and> list_all (\<lambda>v. v = []) values
      then [''''] @ empty_cells (length header)
      else [label] @ values)"

definition build_output_table ::
  "string list \<Rightarrow> row list \<Rightarrow> string list option \<Rightarrow> error + (string list \<times> string list list)"
where
  "build_output_table header final_rows structure_numbers =
     (case structure_numbers of
        Some sn \<Rightarrow>
          if length sn \<noteq> length final_rows
          then Inl (StructureMismatch (length sn) (length final_rows))
          else Inr ([''Bezeichnung''] @ header, map (render_row header) final_rows)
      | None \<Rightarrow> Inr ([''Bezeichnung''] @ header, map (render_row header) final_rows))"

text \<open>No two neighbouring rows are both blank.\<close>

fun no_blank_run :: "row list \<Rightarrow> bool" where
  "no_blank_run [] = True"
| "no_blank_run [r] = True"
| "no_blank_run (r # r' # rows) = (\<not> (is_blank r \<and> is_blank r') \<and> no_blank_run (r' # rows))"

section \<open>Python strings\<close>

text \<open>
  The character classes of Python's \<open>str\<close> and \<open>re\<close> on the code points below 256:
  \<open>str.isspace\<close> (also \<open>\s\<close>, and what \<open>strip\<close> and \<open>split\<close> remove), the decimal
  digits \<open>\d\<close>, the word characters \<open>\w\<close> and the line boundaries of
  \<open>str.splitlines\<close>.
\<close>

definition code :: "char \<Rightarrow> nat" where
  "code c = of_char c"

definition isspace :: "char \<Rightarrow> bool" where
  "isspace c = ((9 \<le> code c \<and> code c \<le> 13) \<or> (28 \<le> code c \<and> code c \<le> 32) \<or>
                code c = 133 \<or> code c = 160)"

definition isdigit :: "char \<Rightarrow> bool" where
  "isdigit c = (48 \<le> code c \<and> code c \<le> 57)"

definition isword :: "char \<Rightarrow> bool" where
  "isword c =
     ((48 \<le> code c \<and> code c \<le> 57) \<or> (65 \<le> code c \<and> code c \<le> 90) \<or> code c = 95 \<or>
      (97 \<le> code c \<and> code c \<le> 122) \<or> code c = 170 \<or> code c = 178 \<or> code c = 179 \<or>
      code c = 181 \<or> code c = 185 \<or> code c = 186 \<or> (188 \<le> code c \<and> code c \<le> 190) \<or>
      (192 \<le> code c \<and> code c \<le> 214) \<or> (216 \<le> code c \<and> code c \<le> 246) \<or>
      248 \<le> code c)"

definition islinebreak :: "char \<Rightarrow> bool" where
  "islinebreak c = ((10 \<le> code c \<and> code c \<le> 13) \<or> (28 \<le> code c \<and> code c \<le> 30) \<or>
                    code c = 133)"

text \<open>\<open>s.strip()\<close>\<close>

definition strip :: "string \<Rightarrow> string" where
  "strip s = rev (dropWhile isspace (rev (dropWhile isspace s)))"

text \<open>
  \<open>s.splitlines()\<close>; the first argument is the line read so far. A carriage return
  followed by a line feed is one boundary, and a final boundary opens no further line.
\<close>

fun splitlines_from :: "string \<Rightarrow> string \<Rightarrow> string list" where
  "splitlines_from cur [] = (if cur = [] then [] else [cur])"
| "splitlines_from cur (c # cs) =
     (if c = CHR 0x0D then
        (case cs of
           [] \<Rightarrow> [cur]
         | d # ds \<Rightarrow> if d = CHR 0x0A then cur # splitlines_from [] ds
                     else cur # splitlines_from [] (d # ds))
      else if islinebreak c then cur # splitlines_from [] cs
      else splitlines_from (cur @ [c]) cs)"

definition splitlines :: "string \<Rightarrow> string list" where
  "splitlines s = splitlines_from [] s"

text \<open>\<open>s.split()\<close>: the maximal runs of characters that are not whitespace.\<close>

fun split_from :: "string \<Rightarrow> string \<Rightarrow> string list" where
  "split_from cur [] = (if cur = [] then [] else [cur])"
| "split_from cur (c # cs) =
     (if isspace c then (if cur = [] then split_from [] cs else cur # split_from [] cs)
      else split_from (cur @ [c]) cs)"

definition split_ws :: "string \<Rightarrow> string list" where
  "split_ws s = split_from [] s"

text \<open>\<open>sep.join(parts)\<close>\<close>

fun join_str :: "string \<Rightarrow> string list \<Rightarrow> string" where
  "join_str sep [] = []"
| "join_str sep [x] = x"
| "join_str sep (x # y # ys) = x @ sep @ join_str sep (y # ys)"

text \<open>
  \<open>s.find(sub)\<close>: the lowest index at which \<open>sub\<close> occurs in \<open>s\<close>, or \<open>-1\<close>. The last
  argument of the loop is the index reached.
\<close>

fun find_from :: "string \<Rightarrow> string \<Rightarrow> nat \<Rightarrow> int" where
  "find_from sub [] i = (if sub = [] then int i else - 1)"
| "find_from sub (c # cs) i =
     (if take (length sub) (c # cs) = sub then int i else find_from sub cs (Suc i))"

definition find_str :: "string \<Rightarrow> string \<Rightarrow> int" where
  "find_str s sub = find_from sub s 0"

text \<open>\<open>sub in s\<close>\<close>

definition contains :: "string \<Rightarrow> string \<Rightarrow> bool" where
  "contains sub s = (find_str s sub \<noteq> - 1)"

text \<open>\<open>xs[:pos]\<close>, where a negative \<open>pos\<close> counts from the end.\<close>

definition slice_to :: "'a list \<Rightarrow> int \<Rightarrow> 'a list" where
  "slice_to xs pos = (if pos < 0 then take (nat (int (length xs) + pos)) xs else take (nat pos) xs)"

text \<open>\<open>xs[-n:]\<close> for \<open>n \<ge> 0\<close>; since \<open>-0\<close> is \<open>0\<close>, \<open>xs[-0:]\<close> is all of \<open>xs\<close>.\<close>

definition last_n :: "nat \<Rightarrow> 'a list \<Rightarrow> 'a list" where
  "last_n n xs = (if n = 0 then xs else drop (length xs - n) xs)"

section \<open>Regular expressions\<close>

text \<open>
  The patterns of the program use literals, character classes, concatenation, ordered
  alternation, the greedy \<open>?\<close>, \<open>*\<close>, \<open>+\<close> and \<open>{m,n}\<close>, the assertion \<open>\b\<close> and the
  anchors \<open>^\<close> and \<open>$\<close>. A position in the subject is the character before it (if any)
  and the text from it on.
\<close>

datatype regex =
    Eps
  | Lit char
  | Cls "char \<Rightarrow> bool"
  | Cat regex regex
  | Alt regex regex
  | Opt regex
  | Star regex
  | WordB
  | Bos
  | Eos

type_synonym pos = "char option \<times> string"

text \<open>\<open>\b\<close>: exactly one of the two neighbours of the position is a word character.\<close>

definition word_before :: "pos \<Rightarrow> bool" where
  "word_before x = (case fst x of None \<Rightarrow> False | Some c \<Rightarrow> isword c)"

definition word_after :: "pos \<Rightarrow> bool" where
  "word_after x = (case snd x of [] \<Rightarrow> False | c # cs \<Rightarrow> isword c)"

text \<open>
  The backtracking matcher: \<open>ends r x\<close> lists the positions where a match of \<open>r\<close> that
  starts at \<open>x\<close> can end, in the order in which Python's engine tries them (the left
  alternative first, the longer repetition first), so the head of the list is the match
  the engine reports. A repetition goes on only after an iteration that consumed a
  character; every repeated subpattern of this program consumes one.
\<close>

function ends :: "regex \<Rightarrow> pos \<Rightarrow> pos list" where
  "ends Eps x = [x]"
| "ends (Lit c) x = (case snd x of [] \<Rightarrow> [] | d # ds \<Rightarrow> if d = c then [(Some d, ds)] else [])"
| "ends (Cls P) x = (case snd x of [] \<Rightarrow> [] | d # ds \<Rightarrow> if P d then [(Some d, ds)] else [])"
| "ends (Cat r1 r2) x = concat (map (ends r2) (ends r1 x))"
| "ends (Alt r1 r2) x = ends r1 x @ ends r2 x"
| "ends (Opt r) x = ends r x @ [x]"
| "ends (Star r) x =
     concat (map (ends (Star r)) (filter (\<lambda>y. length (snd y) < length (snd x)) (ends r x))) @ [x]"
| "ends WordB x = (if word_before x \<noteq> word_after x then [x] else [])"
| "ends Bos x = (if fst x = None then [x] else [])"
| "ends Eos x = (if snd x = [] \<or> snd x = [CHR 0x0A] then [x] else [])"
  by pat_completeness auto
termination
  by (relation "measures [\<lambda>(r, x). size r, \<lambda>(r, x). length (snd x)]") auto

text \<open>Derived forms: a literal string, \<open>r+\<close>, and a list of alternatives.\<close>

fun Str :: "string \<Rightarrow> regex" where
  "Str [] = Eps"
| "Str [c] = Lit c"
| "Str (c # cs) = Cat (Lit c) (Str cs)"

definition Plus :: "regex \<Rightarrow> regex" where
  "Plus r = Cat r (Star r)"

fun Alts :: "regex list \<Rightarrow> regex" where
  "Alts [] = Eps"
| "Alts [r] = r"
| "Alts (r # rs) = Alt r (Alts rs)"

fun Cats :: "regex list \<Rightarrow> regex" where
  "Cats [] = Eps"
| "Cats [r] = r"
| "Cats (r # rs) = Cat r (Cats rs)"

text \<open>
  \<open>pattern.finditer(s)\<close>: the matches from left to right, none overlapping, each as
  its start index and its text. The search resumes where the last match ended, and a
  character further on where none was found. (A pattern that matches the empty string
  would yield the empty match and move a character on; no pattern here does.)
\<close>

function finditer_from :: "regex \<Rightarrow> nat \<Rightarrow> pos \<Rightarrow> (nat \<times> string) list" where
  "finditer_from r i (p, s) =
     (case ends r (p, s) of
        [] \<Rightarrow> (case s of [] \<Rightarrow> [] | c # cs \<Rightarrow> finditer_from r (Suc i) (Some c, cs))
      | y # ys \<Rightarrow>
          if length (snd y) < length s
          then (i, take (length s - length (snd y)) s) #
               finditer_from r (i + (length s - length (snd y))) y
          else (i, []) #
               (case s of [] \<Rightarrow> [] | c # cs \<Rightarrow> finditer_from r (Suc i) (Some c, cs)))"
  by pat_completeness auto
termination
  by (relation "measure (\<lambda>(r, i, x). length (snd x))") auto

definition finditer :: "regex \<Rightarrow> string \<Rightarrow> (nat \<times> string) list" where
  "finditer r s = finditer_from r 0 (None, s)"

text \<open>\<open>pattern.findall(s)\<close> for a pattern without capturing groups: the texts of the matches.\<close>

definition findall :: "regex \<Rightarrow> string \<Rightarrow> string list" where
  "findall r s = map snd (finditer r s)"

text \<open>\<open>pattern.search(s)\<close> as a truth value: there is a match somewhere.\<close>

definition search :: "regex \<Rightarrow> string \<Rightarrow> bool" where
  "search r s = (finditer r s \<noteq> [])"

text \<open>\<open>pattern.match(s)\<close> as a truth value: there is a match that starts at the beginning.\<close>

definition matches :: "regex \<Rightarrow> string \<Rightarrow> bool" where
  "matches r s = (ends r (None, s) \<noteq> [])"

text \<open>
  \<open>pattern.sub(repl, s)\<close>: every match is replaced, the text between the matches is
  kept. The replacement is given as a function of the text of the match.
\<close>

function sub_from :: "regex \<Rightarrow> (string \<Rightarrow> string) \<Rightarrow> pos \<Rightarrow> string" where
  "sub_from r repl (p, s) =
     (case ends r (p, s) of
        [] \<Rightarrow> (case s of [] \<Rightarrow> [] | c # cs \<Rightarrow> c # sub_from r repl (Some c, cs))
      | y # ys \<Rightarrow>
          if length (snd y) < length s
          then repl (take (length s - length (snd y)) s) @ sub_from r repl y
          else repl [] @
               (case s of [] \<Rightarrow> [] | c # cs \<Rightarrow> c # sub_from r repl (Some c, cs)))"
  by pat_completeness auto
termination
  by (relation "measure (\<lambda>(r, repl, x). length (snd x))") auto

definition sub :: "regex \<Rightarrow> (string \<Rightarrow> string) \<Rightarrow> string \<Rightarrow> string" where
  "sub r repl s = sub_from r repl (None, s)"

section \<open>Pipeline A: patterns, header detection and row extraction\<close>

definition digit :: regex where
  "digit = Cls isdigit"

definition space :: regex where
  "space = Cls isspace"

text \<open>The separator class \<open>[/.\-]\<close>.\<close>

definition issep :: "char \<Rightarrow> bool" where
  "issep c = (c = CHR ''/'' \<or> c = CHR ''.'' \<or> c = CHR ''-'')"

text \<open>
  The month names of \<open>MONTHS_RE\<close>:
  \<open>Jan(?:uar)?|Feb(?:ruar)?|M(?:\<dieresis>arz?|aerz?|rz|ar)|Apr(?:il)?|Mai|Jun(?:i)?|Jul(?:i)?|\<close>
  \<open>Aug(?:ust)?|Sep(?:t(?:ember)?)?|Okt(?:ober)?|Nov(?:ember)?|Dez(?:ember)?\<close>
\<close>

definition month_name :: regex where
  "month_name = Alts [
     Cat (Str ''Jan'') (Opt (Str ''uar'')),
     Cat (Str ''Feb'') (Opt (Str ''ruar'')),
     Cat (Lit CHR ''M'')
       (Alts [Cats [Lit (CHR 0xE4), Lit CHR ''r'', Opt (Lit CHR ''z'')],
              Cats [Str ''aer'', Opt (Lit CHR ''z'')],
              Str ''rz'',
              Str ''ar'']),
     Cat (Str ''Apr'') (Opt (Str ''il'')),
     Str ''Mai'',
     Cat (Str ''Jun'') (Opt (Lit CHR ''i'')),
     Cat (Str ''Jul'') (Opt (Lit CHR ''i'')),
     Cat (Str ''Aug'') (Opt (Str ''ust'')),
     Cat (Str ''Sep'') (Opt (Cat (Lit CHR ''t'') (Opt (Str ''ember'')))),
     Cat (Str ''Okt'') (Opt (Str ''ober'')),
     Cat (Str ''Nov'') (Opt (Str ''ember'')),
     Cat (Str ''Dez'') (Opt (Str ''ember''))]"

text \<open>\<open>MONTHS_RE\<close>: \<open>\b(?:\<dots>)\.?\s*(?:[/\.\-]\s*|\s+)\d{2,4}\b\<close>\<close>

definition MONTHS_RE :: regex where
  "MONTHS_RE = Cats [
     WordB,
     month_name,
     Opt (Lit CHR ''.''),
     Star space,
     Alt (Cat (Cls issep) (Star space)) (Plus space),
     digit, digit, Opt (Cat digit (Opt digit)),
     WordB]"

text \<open>\<open>DE_NUMBER_RE\<close>: \<open>-?\d{1,3}(?:\.\d{3})*,\d{2}|-?0,00\<close>\<close>

definition DE_NUMBER_RE :: regex where
  "DE_NUMBER_RE = Alt
     (Cats [
        Opt (Lit CHR ''-''),
        digit, Opt (Cat digit (Opt digit)),
        Star (Cats [Lit CHR ''.'', digit, digit, digit]),
        Lit CHR '','',
        digit, digit])
     (Cat (Opt (Lit CHR ''-'')) (Str ''0,00''))"

text \<open>\<open>SEPARATOR_CLEAN_RE\<close>: \<open>\s*([/.\-])\s*\<close>\<close>

definition SEPARATOR_CLEAN_RE :: regex where
  "SEPARATOR_CLEAN_RE = Cats [Star space, Cls issep, Star space]"

text \<open>
  The replacement \<open>\1\<close> of \<open>SEPARATOR_CLEAN_RE\<close>: group 1 of a match is its separator
  character, the only character of the match that is not whitespace.
\<close>

definition group1 :: "string \<Rightarrow> string" where
  "group1 m = filter issep m"

definition normalize_month_token :: "string \<Rightarrow> string" where
  "normalize_month_token token = sub SEPARATOR_CLEAN_RE group1 (join_str '' '' (split_ws token))"

text \<open>The loop of \<open>extract_month_tokens\<close> over the matches, with the set \<open>seen\<close>.\<close>

fun ordered_loop :: "string set \<Rightarrow> string list \<Rightarrow> string list" where
  "ordered_loop seen [] = []"
| "ordered_loop seen (m # months) =
     (let normalized = normalize_month_token m in
      if normalized \<notin> seen then normalized # ordered_loop (insert normalized seen) months
      else ordered_loop seen months)"

definition extract_month_tokens :: "string \<Rightarrow> string list" where
  "extract_month_tokens text = ordered_loop {} (findall MONTHS_RE text)"

text \<open>The first loop of \<open>detect_month_header\<close>, over the lines of the text.\<close>

fun anchor_loop :: "string list \<Rightarrow> string list option" where
  "anchor_loop [] = None"
| "anchor_loop (raw_line # lines) =
     (if \<not> contains ''Bezeichnung'' raw_line then anchor_loop lines
      else (let ordered = extract_month_tokens raw_line in
            if length ordered \<ge> 13 then Some (last_n 13 ordered) else anchor_loop lines))"

definition detect_month_header :: "string \<Rightarrow> string list option" where
  "detect_month_header text =
     (case anchor_loop (splitlines text) of
        Some header \<Rightarrow> Some header
      | None \<Rightarrow>
          (let ordered = extract_month_tokens text in
           if length ordered \<ge> 13 then Some (last_n 13 ordered) else None))"

text \<open>
  The loop of \<open>parse_rows_from_text\<close> over the lines. \<open>values[0]\<close> raises \<open>IndexError\<close>
  when \<open>values\<close> is empty, which aborts the whole function.
\<close>

fun rows_loop :: "string list \<Rightarrow> string list \<Rightarrow> error + row list" where
  "rows_loop months [] = Inr []"
| "rows_loop months (raw_line # lines) =
     (let line = strip raw_line in
      if line = [] then rows_loop months lines
      else if line = ''Kostenarten:'' then
        map_sum id (Cons (line, empty_cells (length months))) (rows_loop months lines)
      else
        (let nums = findall DE_NUMBER_RE line in
         if length nums \<ge> length months then
           (let values = last_n (length months) nums in
            case values of
              [] \<Rightarrow> Inl IndexError
            | first_num # _ \<Rightarrow>
                (let pos = find_str line first_num;
                     label = strip (slice_to line pos)
                 in map_sum id (Cons (label, values)) (rows_loop months lines)))
         else rows_loop months lines))"

definition parse_rows_from_text :: "string \<Rightarrow> string list \<Rightarrow> error + row list" where
  "parse_rows_from_text text months = rows_loop months (splitlines text)"

text \<open>The deduplication loop of \<open>convert_page_to_csv\<close>, with the set \<open>seen\<close> of keys.\<close>

fun uniq_loop :: "row set \<Rightarrow> row list \<Rightarrow> row list" where
  "uniq_loop seen [] = []"
| "uniq_loop seen (r # rows) =
     (if r \<notin> seen then r # uniq_loop (insert r seen) rows else uniq_loop seen rows)"

text \<open>
  \<open>s.casefold()\<close> on the code points below 256: the capital letters are lowered and the
  sharp s becomes \<open>ss\<close>. (The micro sign folds to a Greek mu, a code point above 255; it
  is left as it is here, and neither occurs in a search term.)
\<close>

definition casefold_char :: "char \<Rightarrow> string" where
  "casefold_char c =
     (if (65 \<le> code c \<and> code c \<le> 90) \<or> (192 \<le> code c \<and> code c \<le> 214) \<or>
         (216 \<le> code c \<and> code c \<le> 222)
      then [char_of (code c + 32)]
      else if code c = 223 then ''ss''
      else [c])"

definition casefold :: "string \<Rightarrow> string" where
  "casefold s = concat (map casefold_char s)"

definition ENTWICKLUNGSUEBERSICHT_TERMS :: "string list" where
  "ENTWICKLUNGSUEBERSICHT_TERMS =
     [''entwicklungs'' @ [CHR 0xFC] @ ''bersicht'', ''entwicklungsuebersicht'']"

text \<open>
  A document of Pipeline A is the list of its pages' texts (\<open>page.extract_text() or ""\<close>).
  \<open>find_entwicklungsuebersicht_page\<close> returns the 1-based index and the text of the first
  page that has one of the terms; the first argument of the loop is the index reached.
\<close>

fun find_page_from :: "nat \<Rightarrow> string list \<Rightarrow> (nat \<times> string) option" where
  "find_page_from index [] = None"
| "find_page_from index (page_text # pages) =
     (let lowered = casefold page_text in
      if list_ex (\<lambda>term. contains term lowered) ENTWICKLUNGSUEBERSICHT_TERMS
      then Some (index, page_text)
      else find_page_from (Suc index) pages)"

definition find_entwicklungsuebersicht_page :: "string list \<Rightarrow> (nat \<times> string) option" where
  "find_entwicklungsuebersicht_page pages = find_page_from 1 pages"

text \<open>The first part of \<open>convert_page_to_csv\<close>: the text of the page to convert.\<close>

definition select_page :: "string list \<Rightarrow> int option \<Rightarrow> error + string" where
  "select_page pages page_number =
     (case page_number of
        None \<Rightarrow>
          (case find_entwicklungsuebersicht_page pages of
             None \<Rightarrow> Inl NoOverviewPage
           | Some (n, page_text) \<Rightarrow> Inr page_text)
      | Some n \<Rightarrow>
          if n < 1 then Inl PageNotOneBased
          else if n > int (length pages) then Inl (PageBeyondEnd (length pages) n)
          else Inr (pages ! nat (n - 1)))"

text \<open>
  The second part of \<open>convert_page_to_csv\<close>: from the page text to the table that is
  written out.
\<close>

definition convert_text ::
  "string \<Rightarrow> string list option \<Rightarrow> error + (string list \<times> string list list)"
where
  "convert_text page_text structure_numbers =
     (case detect_month_header page_text of
        None \<Rightarrow> Inl NoMonthHeader
      | Some header \<Rightarrow>
          if header = [] then Inl NoMonthHeader
          else
            (case parse_rows_from_text page_text header of
               Inl e \<Rightarrow> Inl e
             | Inr rows \<Rightarrow>
                 (let rows' = ensure_kostenarten rows header;
                      uniq_rows = uniq_loop {} rows';
                      final_rows =
                        compress_blank_rows (insert_section_breaks uniq_rows (length header))
                  in build_output_table header final_rows structure_numbers)))"

definition convert_page_to_csv ::
  "string list \<Rightarrow> int option \<Rightarrow> string list option \<Rightarrow>
   error + (string list \<times> string list list)"
where
  "convert_page_to_csv pages page_number structure_numbers =
     (case select_page pages page_number of
        Inl e \<Rightarrow> Inl e
      | Inr page_text \<Rightarrow> convert_text page_text structure_numbers)"

text \<open>Every row has exactly \<open>n\<close> values.\<close>

definition same_width :: "nat \<Rightarrow> row list \<Rightarrow> bool" where
  "same_width n rows = list_all (\<lambda>r. length (snd r) = n) rows"

section \<open>Pipeline B: glyph lines, column slices and amounts\<close>

text \<open>
  A glyph is one entry of \<open>page.chars\<close>: its text and the coordinates \<open>x0\<close> and \<open>top\<close>,
  which are finite floating-point numbers and so rationals. A page of Pipeline B is its
  glyphs and its extracted text (\<open>page.extract_text() or ""\<close>).
\<close>

record glyph =
  ch_text :: string
  ch_x0 :: rat
  ch_top :: rat

record page =
  chars :: "glyph list"
  extract_text :: string

text \<open>\<open>COLUMN_BOUNDS\<close>: the name, the start and the end of every column.\<close>

definition COLUMN_BOUNDS :: "(string \<times> int \<times> int) list" where
  "COLUMN_BOUNDS = [
     (''Konto'', 0, 90),
     (''Beschriftung'', 90, 320),
     (''EB-Wert'', 320, 410),
     (''Okt 2025 Soll'', 410, 500),
     (''Okt 2025 Haben'', 500, 580),
     (''Kum Werte Soll'', 580, 660),
     (''Kum Werte Haben'', 660, 750),
     (''Saldo'', 750, 900)]"

text \<open>
  A letter of a pattern compiled with \<open>re.IGNORECASE\<close>: the lower-case letter itself or
  its capital, 32 code points below.
\<close>

definition ci :: "char \<Rightarrow> regex" where
  "ci c = Cls (\<lambda>d. d = c \<or> code d + 32 = code c)"

text \<open>\<open>SUSA_HEADER_RE\<close>: \<open>summen\s*(?:-\s*)?und\s*salden\<close>, ignoring case.\<close>

definition SUSA_HEADER_RE :: regex where
  "SUSA_HEADER_RE = Cats (
     map ci ''summen'' @
     [Star space, Opt (Cat (Lit CHR ''-'') (Star space))] @
     map ci ''und'' @
     [Star space] @
     map ci ''salden'')"

text \<open>
  Python's \<open>round(x)\<close> on a float: the nearest integer, and the even one of the two when
  \<open>x\<close> lies halfway between them.
\<close>

definition py_round :: "rat \<Rightarrow> int" where
  "py_round x =
     (let f = \<lfloor>x\<rfloor>; d = x - of_int f in
      if d < 1 / 2 then f
      else if 1 / 2 < d then f + 1
      else if even f then f else f + 1)"

text \<open>
  \<open>lines.setdefault(y, []).append(ch)\<close> on a dictionary kept as the list of its items in
  insertion order.
\<close>

fun setdefault_append :: "int \<Rightarrow> glyph \<Rightarrow> (int \<times> glyph list) list \<Rightarrow> (int \<times> glyph list) list" where
  "setdefault_append y ch [] = [(y, [ch])]"
| "setdefault_append y ch ((k, v) # lines) =
     (if k = y then (k, v @ [ch]) # lines else (k, v) # setdefault_append y ch lines)"

text \<open>
  \<open>collect_lines(page)\<close> with the default \<open>bucket = 1\<close>, the only way the program calls
  it: \<open>round(ch["top"] / 1) * 1\<close> is \<open>round(ch["top"])\<close>. The result lists the items by
  ascending key; the keys of a dictionary are distinct.
\<close>

definition collect_lines :: "page \<Rightarrow> (int \<times> glyph list) list" where
  "collect_lines page =
     (let lines = foldl (\<lambda>lines ch. setdefault_append (py_round (ch_top ch)) ch lines) [] (chars page)
      in sort_key fst lines)"

text \<open>
  \<open>slice_columns(chars)\<close>: the dictionary from column names to texts, as the list of its
  items. \<open>sorted\<close> is stable, and so is \<^const>\<open>sort_key\<close>.
\<close>

definition slice_columns :: "glyph list \<Rightarrow> (string \<times> string) list" where
  "slice_columns line_chars =
     (let sorted_chars = sort_key ch_x0 line_chars in
      map (\<lambda>(name, start, stop).
             (name, strip (concat (map ch_text
                (filter (\<lambda>ch. of_int start \<le> ch_x0 ch \<and> ch_x0 ch < of_int stop) sorted_chars)))))
          COLUMN_BOUNDS)"

text \<open>\<open>cols[name]\<close> for a name that is a key of \<open>cols\<close>; every column name is one.\<close>

definition item :: "(string \<times> 'a) list \<Rightarrow> string \<Rightarrow> 'a" where
  "item cols name = the (map_of cols name)"

text \<open>\<open>s.replace(old, new)\<close> for a single character \<open>old\<close>.\<close>

definition replace :: "string \<Rightarrow> char \<Rightarrow> string \<Rightarrow> string" where
  "replace s old new = concat (map (\<lambda>c. if c = old then new else [c]) s)"

text \<open>\<open>s.endswith(suffix)\<close>\<close>

definition endswith :: "string \<Rightarrow> string \<Rightarrow> bool" where
  "endswith s suffix = (length suffix \<le> length s \<and> drop (length s - length suffix) s = suffix)"

text \<open>
  \<open>parse_amount(text, signed)\<close>. Python's built-in \<open>float\<close> is a parameter: \<open>float_of s\<close>
  is the number \<open>float(s)\<close> returns, or \<open>None\<close> where it raises \<open>ValueError\<close>, the only
  exception it raises on a string. A float is read as the real number it denotes.
\<close>

definition parse_amount :: "(string \<Rightarrow> real option) \<Rightarrow> string \<Rightarrow> bool \<Rightarrow> real" where
  "parse_amount float_of text signed =
     (if text = [] then 0
      else
        (let cleaned = replace text CHR '' '' [];
             sign = (if endswith cleaned ''S'' \<or> endswith cleaned ''H''
                     then (if signed then (if endswith cleaned ''H'' then - 1 else 1) else 1)
                     else (1 :: int));
             cleaned = (if endswith cleaned ''S'' \<or> endswith cleaned ''H'' then butlast cleaned
                        else cleaned);
             cleaned = replace (replace cleaned CHR ''.'' []) CHR '','' ''.''
         in case float_of cleaned of
              Some v \<Rightarrow> of_int sign * v
            | None \<Rightarrow> 0))"

text \<open>
  The text that \<open>parse_amount\<close> hands to \<open>float\<close>: spaces removed, a final \<open>S\<close> or \<open>H\<close>
  removed, periods removed, commas turned into periods.
\<close>

definition cleaned_amount :: "string \<Rightarrow> string" where
  "cleaned_amount text =
     (let cleaned = replace text CHR '' '' [];
          cleaned = (if endswith cleaned ''S'' \<or> endswith cleaned ''H'' then butlast cleaned
                     else cleaned)
      in replace (replace cleaned CHR ''.'' []) CHR '','' ''.'')"

section \<open>Pipeline B: page range and row filter\<close>

text \<open>\<open>konto_re\<close>: \<open>^\d{3,4}\s*\d{2}$\<close>\<close>

definition konto_re :: regex where
  "konto_re = Cats [Bos, digit, digit, digit, Opt digit, Star space, digit, digit, Eos]"

text \<open>A row of Pipeline B: the dictionary that \<open>parse_pdf\<close> appends for a line.\<close>

record susa_row =
  Konto :: string
  Beschriftung :: string
  EB_Wert :: real
  Okt_2025_Soll :: real
  Okt_2025_Haben :: real
  Kum_Werte_Soll :: real
  Kum_Werte_Haben :: real
  Saldo :: real

text \<open>
  \<open>find_susa_page_range(pdf)\<close>: the 1-based indices of the first and the last page whose
  text has a match of \<open>SUSA_HEADER_RE\<close>, or \<open>(None, None)\<close>.
\<close>

definition find_susa_page_range :: "page list \<Rightarrow> int option \<times> int option" where
  "find_susa_page_range pages =
     (let matches = map (\<lambda>(index, page). int index)
                      (filter (\<lambda>(index, page). search SUSA_HEADER_RE (extract_text page))
                         (zip [1 ..< Suc (length pages)] pages))
      in if matches = [] then (None, None) else (Some (hd matches), Some (last matches)))"

text \<open>
  The first part of \<open>parse_pdf\<close>: from the requested pages to the slice
  \<open>pdf.pages[start_idx:end_idx]\<close>, given as its two indices, or to the exception raised.
\<close>

definition page_range :: "page list \<Rightarrow> int option \<Rightarrow> int option \<Rightarrow> error + (int \<times> int)" where
  "page_range pages start_page end_page =
     (let total_pages = int (length pages) in
      case (if start_page = None \<and> end_page = None
            then (case find_susa_page_range pages of
                    (None, _) \<Rightarrow> Inl NoSusaPage
                  | (Some s, e) \<Rightarrow> Inr (Some s, e))
            else Inr (start_page, end_page)) of
        Inl err \<Rightarrow> Inl err
      | Inr (start_page, end_page) \<Rightarrow>
          (let start_page = (case start_page of None \<Rightarrow> 1 | Some s \<Rightarrow> s);
               end_page = (case end_page of None \<Rightarrow> total_pages | Some e \<Rightarrow> e);
               start_idx = max (start_page - 1) 0;
               end_idx = min end_page total_pages
           in if start_idx \<ge> total_pages then Inl (StartOutside start_page (length pages))
              else if end_idx \<le> start_idx then Inl (EndNotAfterStart end_page start_page)
              else Inr (start_idx, end_idx)))"

text \<open>The row filter of \<open>parse_pdf\<close>: the line's account number has the shape of \<open>konto_re\<close>.\<close>

definition konto_of :: "glyph list \<Rightarrow> string" where
  "konto_of line_chars = strip (item (slice_columns line_chars) ''Konto'')"

definition qualifies :: "glyph list \<Rightarrow> bool" where
  "qualifies line_chars = matches konto_re (konto_of line_chars)"

text \<open>The dictionary appended for a line that passes the filter.\<close>

definition row_of :: "(string \<Rightarrow> real option) \<Rightarrow> glyph list \<Rightarrow> susa_row" where
  "row_of float_of line_chars =
     (let cols = slice_columns line_chars;
          konto = strip (item cols ''Konto'')
      in \<lparr>Konto = konto,
          Beschriftung = item cols ''Beschriftung'',
          EB_Wert = parse_amount float_of (item cols ''EB-Wert'') True,
          Okt_2025_Soll = parse_amount float_of (item cols ''Okt 2025 Soll'') False,
          Okt_2025_Haben = parse_amount float_of (item cols ''Okt 2025 Haben'') False,
          Kum_Werte_Soll = parse_amount float_of (item cols ''Kum Werte Soll'') False,
          Kum_Werte_Haben = parse_amount float_of (item cols ''Kum Werte Haben'') False,
          Saldo = parse_amount float_of (item cols ''Saldo'') True\<rparr>)"

text \<open>The inner loop of \<open>parse_pdf\<close>, over the lines of a page.\<close>

fun lines_loop :: "(string \<Rightarrow> real option) \<Rightarrow> (int \<times> glyph list) list \<Rightarrow> susa_row list" where
  "lines_loop float_of [] = []"
| "lines_loop float_of ((y, line_chars) # lines) =
     (let cols = slice_columns line_chars;
          konto = strip (item cols ''Konto'')
      in if \<not> matches konto_re konto then lines_loop float_of lines
         else row_of float_of line_chars # lines_loop float_of lines)"

text \<open>The outer loop of \<open>parse_pdf\<close>, over the pages of the slice.\<close>

fun pages_loop :: "(string \<Rightarrow> real option) \<Rightarrow> page list \<Rightarrow> susa_row list" where
  "pages_loop float_of [] = []"
| "pages_loop float_of (page # pages) =
     lines_loop float_of (collect_lines page) @ pages_loop float_of pages"

text \<open>
  \<open>parse_pdf(pdf_path, start_page, end_page)\<close> on the pages of the opened document. Both
  indices of the slice are at least 0 when it is taken.
\<close>

definition parse_pdf ::
  "(string \<Rightarrow> real option) \<Rightarrow> page list \<Rightarrow> int option \<Rightarrow> int option \<Rightarrow> error + susa_row list"
where
  "parse_pdf float_of pages start_page end_page =
     (case page_range pages start_page end_page of
        Inl e \<Rightarrow> Inl e
      | Inr (start_idx, end_idx) \<Rightarrow>
          Inr (pages_loop float_of (drop (nat start_idx) (take (nat end_idx) pages))))"

section \<open>Blank-run compression\<close>

lemma compress_loop_fixed:
  "no_blank_run rows \<Longrightarrow> (prev \<Longrightarrow> rows \<noteq> [] \<Longrightarrow> \<not> is_blank (hd rows)) \<Longrightarrow>
   compress_loop prev rows = rows"
proof (induction rows arbitrary: prev rule: no_blank_run.induct)
  case 1
  then show ?case by simp
next
  case (2 r)
  then show ?case by auto
next
  case (3 r r' rows)
  have "compress_loop (is_blank r) (r' # rows) = r' # rows"
    using "3.prems" by (intro "3.IH") auto
  with "3.prems" show ?case by auto
qed

lemma compress_loop_head:
  "prev \<Longrightarrow> compress_loop prev rows \<noteq> [] \<Longrightarrow> \<not> is_blank (hd (compress_loop prev rows))"
  by (induction rows) auto

lemma no_blank_run_Cons:
  "no_blank_run (r # rows) =
     (no_blank_run rows \<and> (is_blank r \<longrightarrow> rows \<noteq> [] \<longrightarrow> \<not> is_blank (hd rows)))"
  by (cases rows) auto

lemma compress_loop_no_run: "no_blank_run (compress_loop prev rows)"
proof (induction rows arbitrary: prev)
  case Nil
  then show ?case by simp
next
  case (Cons r rows)
  show ?case
  proof (cases "is_blank r \<and> prev")
    case True
    then show ?thesis using Cons.IH by simp
  next
    case False
    then have step: "compress_loop prev (r # rows) = r # compress_loop (is_blank r) rows"
      by auto
    show ?thesis
      unfolding step no_blank_run_Cons
      using Cons.IH compress_loop_head by blast
  qed
qed

text \<open>
  C9: blank-run compression is idempotent: compressing an already compressed row
  sequence changes nothing.
\<close>

theorem compress_blank_rows_idempotent:
  "compress_blank_rows (compress_blank_rows rows) = compress_blank_rows rows"
  unfolding compress_blank_rows_def
  by (rule compress_loop_fixed) (simp_all add: compress_loop_no_run)

section \<open>Section breaks followed by compression\<close>

lemma is_blank_empty_cells: "is_blank ('''', empty_cells n)"
  by (simp add: empty_cells_def list_all_iff)

lemma compress_loop_last_blank:
  "is_blank b \<Longrightarrow> is_blank (last (r # compress_loop (is_blank r) (rows @ [b])))"
proof (induction rows arbitrary: r)
  case Nil
  then show ?case by simp
next
  case (Cons x rows)
  show ?case
  proof (cases "is_blank x \<and> is_blank r")
    case True
    then show ?thesis using Cons.IH [OF Cons.prems, of r] by simp
  next
    case False
    then have "compress_loop (is_blank r) ((x # rows) @ [b]) =
               x # compress_loop (is_blank x) (rows @ [b])"
      by auto
    then show ?thesis using Cons.IH [OF Cons.prems, of x] by simp
  qed
qed

text \<open>
  C10: section-break insertion followed by blank-run compression yields a sequence
  that is not empty, begins with a blank row, ends with a blank row and has no two
  neighbouring blank rows; on the empty row sequence it yields exactly one blank row.
\<close>

theorem section_breaks_compressed_shape:
  "compress_blank_rows (insert_section_breaks rows n) \<noteq> [] \<and>
   is_blank (hd (compress_blank_rows (insert_section_breaks rows n))) \<and>
   is_blank (last (compress_blank_rows (insert_section_breaks rows n))) \<and>
   no_blank_run (compress_blank_rows (insert_section_breaks rows n)) \<and>
   compress_blank_rows (insert_section_breaks [] n) = [('''', empty_cells n)]"
proof -
  let ?b = "('''', empty_cells n)"
  have b: "is_blank ?b" by (rule is_blank_empty_cells)
  have out: "compress_blank_rows (insert_section_breaks rows n) =
             ?b # compress_loop (is_blank ?b) (section_loop n rows @ [?b])"
    using b by (simp add: compress_blank_rows_def insert_section_breaks_def)
  have last: "is_blank (last (compress_blank_rows (insert_section_breaks rows n)))"
    unfolding out using b by (rule compress_loop_last_blank)
  have run: "no_blank_run (compress_blank_rows (insert_section_breaks rows n))"
    unfolding compress_blank_rows_def by (rule compress_loop_no_run)
  have empty: "compress_blank_rows (insert_section_breaks [] n) = [?b]"
    using b by (simp add: compress_blank_rows_def insert_section_breaks_def)
  from out b last run empty show ?thesis by simp
qed

section \<open>Sentinel insertion\<close>

lemma first_cost_idx_None:
  "first_cost_idx rows = None \<longleftrightarrow> (\<forall>r \<in> set rows. fst r \<notin> COST_LABELS)"
  by (induction rows rule: first_cost_idx.induct) auto

lemma first_cost_idx_Some:
  "first_cost_idx rows = Some i \<Longrightarrow>
   i < length rows \<and> fst (rows ! i) \<in> COST_LABELS \<and> (\<forall>j < i. fst (rows ! j) \<notin> COST_LABELS)"
proof (induction rows arbitrary: i rule: first_cost_idx.induct)
  case 1
  then show ?case by simp
next
  case (2 label "values" rows)
  show ?case
  proof (cases "label \<in> COST_LABELS")
    case True
    with "2.prems" show ?thesis by simp
  next
    case False
    with "2.prems" obtain k where k: "first_cost_idx rows = Some k" "i = Suc k"
      by auto
    from "2.IH" [OF False k(1)] False k(2) show ?thesis
      by (auto simp: nth_Cons less_Suc_eq_0_disj split: nat.splits)
  qed
qed

text \<open>
  C8 (as amended): sentinel insertion never duplicates the sentinel. A row sequence that
  already has a row labelled \<open>Kostenarten:\<close> is returned unchanged; so is one with no
  row whose label is a cost label. Otherwise the result is the input with one row
  inserted immediately before the first row whose label is a cost label, and the
  inserted row has the label \<open>Kostenarten:\<close> (not the empty label) and N empty values.
\<close>

theorem ensure_kostenarten_inserts_once:
  "(''Kostenarten:'' \<in> fst ` set rows \<longrightarrow> ensure_kostenarten rows months = rows) \<and>
   ((\<forall>r \<in> set rows. fst r \<notin> COST_LABELS) \<longrightarrow> ensure_kostenarten rows months = rows) \<and>
   (''Kostenarten:'' \<notin> fst ` set rows \<and> i < length rows \<and> fst (rows ! i) \<in> COST_LABELS \<and>
      (\<forall>j < i. fst (rows ! j) \<notin> COST_LABELS) \<longrightarrow>
    ensure_kostenarten rows months =
      take i rows @ [(''Kostenarten:'', replicate (length months) '''')] @ drop i rows)"
proof (intro conjI impI)
  assume "''Kostenarten:'' \<in> fst ` set rows"
  then show "ensure_kostenarten rows months = rows"
    by (simp add: ensure_kostenarten_def)
next
  assume "\<forall>r \<in> set rows. fst r \<notin> COST_LABELS"
  then have "first_cost_idx rows = None" by (simp add: first_cost_idx_None)
  then show "ensure_kostenarten rows months = rows"
    by (simp add: ensure_kostenarten_def)
next
  assume a: "''Kostenarten:'' \<notin> fst ` set rows \<and> i < length rows \<and>
             fst (rows ! i) \<in> COST_LABELS \<and> (\<forall>j < i. fst (rows ! j) \<notin> COST_LABELS)"
  then have "first_cost_idx rows \<noteq> None"
    by (auto simp: first_cost_idx_None)
  then obtain k where k: "first_cost_idx rows = Some k" by auto
  from first_cost_idx_Some [OF k] a have "k = i"
    by (meson linorder_neqE_nat)
  with k a show "ensure_kostenarten rows months =
      take i rows @ [(''Kostenarten:'', replicate (length months) '''')] @ drop i rows"
    by (simp add: ensure_kostenarten_def empty_cells_def)
qed

theorem ensure_kostenarten_inserts_once_witness:
  "ensure_kostenarten [(''Kostenarten:'', ['''']), (''Raumkosten'', [''2,00''])] [''Jan/24''] =
     [(''Kostenarten:'', ['''']), (''Raumkosten'', [''2,00''])] \<and>
   ensure_kostenarten [(''Umsatz'', [''1,00''])] [''Jan/24''] = [(''Umsatz'', [''1,00''])] \<and>
   ensure_kostenarten [(''Umsatz'', [''1,00'']), (''Raumkosten'', [''2,00''])] [''Jan/24''] =
     [(''Umsatz'', [''1,00'']), (''Kostenarten:'', ['''']), (''Raumkosten'', [''2,00''])]"
  using
    ensure_kostenarten_inserts_once
      [of "[(''Kostenarten:'', ['''']), (''Raumkosten'', [''2,00''])]" "[''Jan/24'']" 0]
    ensure_kostenarten_inserts_once [of "[(''Umsatz'', [''1,00''])]" "[''Jan/24'']" 0]
    ensure_kostenarten_inserts_once
      [of "[(''Umsatz'', [''1,00'']), (''Raumkosten'', [''2,00''])]" "[''Jan/24'']" 1]
  by (simp add: COST_LABELS_def)

text \<open>
  The claim as first stated gives the inserted row the empty label; on a one-row input
  the inserted row is labelled \<open>Kostenarten:\<close> instead.
\<close>

theorem ensure_kostenarten_empty_label_counterexample:
  "ensure_kostenarten [(''Personalkosten'', [''1,00''])] [''Jan/24''] =
     [(''Kostenarten:'', ['''']), (''Personalkosten'', [''1,00''])] \<and>
   ensure_kostenarten [(''Personalkosten'', [''1,00''])] [''Jan/24''] \<noteq>
     [('''', ['''']), (''Personalkosten'', [''1,00''])]"
  by (simp add: ensure_kostenarten_def COST_LABELS_def empty_cells_def)

section \<open>Table assembly\<close>

text \<open>
  C5: the table assembler fails with a structural-mismatch error exactly when a
  structure reference is supplied whose length differs from the number of annotated
  rows, and the error carries both counts (45 against 44 in the example); otherwise it
  returns the table, whose columns are \<open>Bezeichnung\<close> followed by the header tokens
  (14 columns for a header of 13) and which has one output row per annotated row.
\<close>

theorem build_output_table_mismatch_iff:
  "((\<exists>e. build_output_table header final_rows structure_numbers = Inl e) \<longleftrightarrow>
      (\<exists>sn. structure_numbers = Some sn \<and> length sn \<noteq> length final_rows)) \<and>
   (\<forall>sn. structure_numbers = Some sn \<and> length sn \<noteq> length final_rows \<longrightarrow>
      build_output_table header final_rows structure_numbers =
        Inl (StructureMismatch (length sn) (length final_rows))) \<and>
   ((structure_numbers = None \<or>
       (\<exists>sn. structure_numbers = Some sn \<and> length sn = length final_rows)) \<longrightarrow>
      (\<exists>out_rows. build_output_table header final_rows structure_numbers =
          Inr (''Bezeichnung'' # header, out_rows) \<and> length out_rows = length final_rows \<and>
          (length header = 13 \<longrightarrow> length (''Bezeichnung'' # header) = 14))) \<and>
   (length sn45 = 45 \<and> length final_rows = 44 \<longrightarrow>
      build_output_table header final_rows (Some sn45) = Inl (StructureMismatch 45 44))"
  by (cases structure_numbers) (auto simp: build_output_table_def)

theorem build_output_table_mismatch_iff_witness:
  "build_output_table [''Jan/24''] [(''Umsatz'', [''1,00''])] (Some [''1000'', ''1010'']) =
     Inl (StructureMismatch 2 1) \<and>
   (\<exists>out_rows. build_output_table [''Jan/24''] [(''Umsatz'', [''1,00''])] None =
     Inr ([''Bezeichnung'', ''Jan/24''], out_rows) \<and> length out_rows = 1) \<and>
   build_output_table [''Jan/24''] (replicate 44 (''Umsatz'', [''1,00''])) (Some (replicate 45 ''1000'')) =
     Inl (StructureMismatch 45 44)"
  using
    build_output_table_mismatch_iff
      [of "[''Jan/24'']" "[(''Umsatz'', [''1,00''])]" "Some [''1000'', ''1010'']" "[]"]
    build_output_table_mismatch_iff
      [of "[''Jan/24'']" "[(''Umsatz'', [''1,00''])]" None "[]"]
    build_output_table_mismatch_iff
      [of "[''Jan/24'']" "replicate 44 (''Umsatz'', [''1,00''])" "Some (replicate 45 ''1000'')"
          "replicate 45 ''1000''"]
  by simp

section \<open>Pipeline A: the header width of rows\<close>

lemma rows_loop_width:
  "months \<noteq> [] \<Longrightarrow> \<exists>rows. rows_loop months lines = Inr rows \<and> same_width (length months) rows"
proof (induction lines)
  case Nil
  then show ?case by (simp add: same_width_def)
next
  case (Cons raw_line lines)
  from Cons obtain rows where rows: "rows_loop months lines = Inr rows"
    "same_width (length months) rows" by blast
  let ?line = "strip raw_line"
  let ?nums = "findall DE_NUMBER_RE ?line"
  let ?vals = "last_n (length months) ?nums"
  show ?case
  proof (cases "?line = [] \<or> (?line \<noteq> ''Kostenarten:'' \<and> length ?nums < length months)")
    case True
    with rows show ?thesis by (auto simp: Let_def)
  next
    case False
    show ?thesis
    proof (cases "?line = ''Kostenarten:''")
      case True
      with rows show ?thesis
        by (simp add: Let_def same_width_def empty_cells_def)
    next
      case nk: False
      with False have ge: "length months \<le> length ?nums" and ne: "?line \<noteq> []" by auto
      with Cons.prems have len: "length ?vals = length months"
        by (simp add: last_n_def)
      with Cons.prems obtain v vs where v: "?vals = v # vs"
        by (cases ?vals) auto
      from ne nk ge v rows len show ?thesis
        by (simp add: Let_def same_width_def)
    qed
  qed
qed

lemma ensure_kostenarten_width:
  "same_width (length months) rows \<Longrightarrow> same_width (length months) (ensure_kostenarten rows months)"
  by (auto simp: ensure_kostenarten_def same_width_def list_all_iff empty_cells_def Let_def
      split: option.splits dest: in_set_takeD in_set_dropD)

lemma uniq_loop_subset: "set (uniq_loop seen rows) \<subseteq> set rows"
  by (induction rows arbitrary: seen) auto

lemma uniq_loop_width: "same_width n rows \<Longrightarrow> same_width n (uniq_loop seen rows)"
  using uniq_loop_subset [of seen rows] by (auto simp: same_width_def list_all_iff)

lemma section_loop_width: "same_width n rows \<Longrightarrow> same_width n (section_loop n rows)"
  by (induction rows rule: section_loop.induct) (auto simp: same_width_def empty_cells_def)

lemma insert_section_breaks_width:
  "same_width n rows \<Longrightarrow> same_width n (insert_section_breaks rows n)"
  using section_loop_width [of n rows]
  by (simp add: insert_section_breaks_def same_width_def empty_cells_def)

lemma compress_loop_subset: "set (compress_loop prev rows) \<subseteq> set rows"
  by (induction rows arbitrary: prev) auto

lemma compress_blank_rows_width: "same_width n rows \<Longrightarrow> same_width n (compress_blank_rows rows)"
  using compress_loop_subset [of False rows]
  by (auto simp: same_width_def list_all_iff compress_blank_rows_def)

lemma render_row_width: "length (snd r) = length header \<Longrightarrow> length (render_row header r) = Suc (length header)"
  by (cases r) (simp add: empty_cells_def)

lemma build_output_table_width:
  assumes "same_width (length header) final_rows"
    and "build_output_table header final_rows sn = Inr (columns, out)"
  shows "length columns = Suc (length header) \<and>
         list_all (\<lambda>cells. length cells = Suc (length header)) out"
proof -
  from assms(2) have eq: "columns = ''Bezeichnung'' # header"
    "out = map (render_row header) final_rows"
    by (auto simp: build_output_table_def split: option.splits if_splits)
  have "\<forall>r \<in> set final_rows. length (render_row header r) = Suc (length header)"
    using assms(1) by (simp add: same_width_def list_all_iff render_row_width)
  with eq show ?thesis by (simp add: list_all_iff)
qed

section \<open>Pipeline A: the month header\<close>

lemma remdups_snoc: "remdups (xs @ [n]) = remdups (filter (\<lambda>x. x \<noteq> n) xs) @ [n]"
  by (induction xs) auto

lemma ordered_loop_eq:
  "ordered_loop seen ms =
     rev (remdups (rev (filter (\<lambda>x. x \<notin> seen) (map normalize_month_token ms))))"
proof (induction ms arbitrary: seen)
  case Nil
  then show ?case by simp
next
  case (Cons m ms)
  let ?n = "normalize_month_token m"
  let ?M = "map normalize_month_token ms"
  show ?case
  proof (cases "?n \<in> seen")
    case True
    then show ?thesis using Cons.IH [of seen] by simp
  next
    case False
    have f: "filter (\<lambda>x. x \<notin> insert ?n seen) ?M =
             filter (\<lambda>x. x \<noteq> ?n) (filter (\<lambda>x. x \<notin> seen) ?M)"
      by (simp add: conj_commute)
    have "ordered_loop seen (m # ms) = ?n # ordered_loop (insert ?n seen) ms"
      using False by (simp add: Let_def)
    also have "\<dots> = ?n # rev (remdups (rev (filter (\<lambda>x. x \<notin> insert ?n seen) ?M)))"
      by (simp only: Cons.IH)
    also have "\<dots> = rev (remdups (rev (filter (\<lambda>x. x \<notin> seen) ?M) @ [?n]))"
      unfolding f remdups_snoc by (simp add: rev_filter)
    also have "\<dots> = rev (remdups (rev (filter (\<lambda>x. x \<notin> seen) (map normalize_month_token (m # ms)))))"
      using False by simp
    finally show ?thesis .
  qed
qed

lemma extract_month_tokens_eq:
  "extract_month_tokens t = rev (remdups (rev (map normalize_month_token (findall MONTHS_RE t))))"
  by (simp add: extract_month_tokens_def ordered_loop_eq)

lemma extract_month_tokens_distinct: "distinct (extract_month_tokens t)"
  by (simp add: extract_month_tokens_eq)

lemma anchor_loop_eq:
  "anchor_loop lines =
     map_option (\<lambda>l. drop (length (extract_month_tokens l) - 13) (extract_month_tokens l))
       (List.find (\<lambda>l. contains ''Bezeichnung'' l \<and> 13 \<le> length (extract_month_tokens l)) lines)"
  by (induction lines) (auto simp: Let_def last_n_def)

lemma detect_month_header_Some:
  assumes "detect_month_header t = Some h"
  shows "length h = 13 \<and> distinct h"
proof -
  from assms obtain s where s: "h = drop (length (extract_month_tokens s) - 13) (extract_month_tokens s)"
    "13 \<le> length (extract_month_tokens s)"
    by (auto simp: detect_month_header_def anchor_loop_eq Let_def last_n_def
        split: option.splits if_splits dest: find_Some_iff [THEN iffD1])
  then show ?thesis by (simp add: extract_month_tokens_distinct)
qed

text \<open>
  C7: for a header that is not empty (a resolved header has 13 tokens), row extraction
  returns rows that all have exactly as many values as the header has tokens, data rows
  and the sentinel row alike; sentinel insertion, deduplication, section-break insertion
  and blank-run compression keep that width; the assembled table then has one more cell
  per row than the header has tokens; and every table the conversion of a page text
  returns has 14 columns and 14 cells in every row.
\<close>

theorem header_width_invariant:
  "(months \<noteq> [] \<longrightarrow>
      (\<exists>rows. parse_rows_from_text page_text months = Inr rows \<and>
              same_width (length months) rows)) \<and>
   (same_width (length months) rows \<longrightarrow>
      same_width (length months) (ensure_kostenarten rows months) \<and>
      same_width (length months) (uniq_loop seen rows) \<and>
      same_width (length months) (insert_section_breaks rows (length months)) \<and>
      same_width (length months) (compress_blank_rows rows)) \<and>
   (same_width (length months) rows \<and>
    build_output_table months rows structure_numbers = Inr (columns, out) \<longrightarrow>
      length columns = length months + 1 \<and>
      list_all (\<lambda>cells. length cells = length months + 1) out) \<and>
   (convert_text page_text structure_numbers = Inr (columns', out') \<longrightarrow>
      length columns' = 14 \<and> list_all (\<lambda>cells. length cells = 14) out')"
proof (intro conjI impI)
  assume "months \<noteq> []"
  then show "\<exists>rows. parse_rows_from_text page_text months = Inr rows \<and>
                    same_width (length months) rows"
    unfolding parse_rows_from_text_def by (rule rows_loop_width)
next
  assume w: "same_width (length months) rows"
  from w show "same_width (length months) (ensure_kostenarten rows months)"
    by (rule ensure_kostenarten_width)
  from w show "same_width (length months) (uniq_loop seen rows)"
    by (rule uniq_loop_width)
  from w show "same_width (length months) (insert_section_breaks rows (length months))"
    by (rule insert_section_breaks_width)
  from w show "same_width (length months) (compress_blank_rows rows)"
    by (rule compress_blank_rows_width)
next
  assume a: "same_width (length months) rows \<and>
             build_output_table months rows structure_numbers = Inr (columns, out)"
  from build_output_table_width [of months rows structure_numbers columns out] a
  show "length columns = length months + 1" by simp
  from build_output_table_width [of months rows structure_numbers columns out] a
  show "list_all (\<lambda>cells. length cells = length months + 1) out" by simp
next
  assume c: "convert_text page_text structure_numbers = Inr (columns', out')"
  then obtain header where h: "detect_month_header page_text = Some header"
    by (auto simp: convert_text_def split: option.splits)
  then have len: "length header = 13" using detect_month_header_Some by blast
  then have ne: "header \<noteq> []" by auto
  from rows_loop_width [OF ne] obtain rows0 where
    r0: "parse_rows_from_text page_text header = Inr rows0" "same_width (length header) rows0"
    unfolding parse_rows_from_text_def by blast
  let ?final = "compress_blank_rows (insert_section_breaks
                  (uniq_loop {} (ensure_kostenarten rows0 header)) (length header))"
  have fw: "same_width (length header) ?final"
    using r0(2)
    by (intro compress_blank_rows_width insert_section_breaks_width uniq_loop_width
        ensure_kostenarten_width)
  from c h ne r0 have b: "build_output_table header ?final structure_numbers = Inr (columns', out')"
    by (simp add: convert_text_def Let_def)
  from build_output_table_width [OF fw b] len
  show "length columns' = 14" by simp
  from build_output_table_width [OF fw b] len
  show "list_all (\<lambda>cells. length cells = 14) out'" by simp
qed

theorem header_width_invariant_witness:
  "(\<exists>rows. parse_rows_from_text ''Miete 1,00 2,00'' [''Jan/24'', ''Feb/24''] = Inr rows \<and>
      same_width 2 rows) \<and>
   same_width 1 (ensure_kostenarten [(''Raumkosten'', [''1,00''])] [''Jan/24'']) \<and>
   same_width 1 (uniq_loop {} [(''Raumkosten'', [''1,00''])]) \<and>
   same_width 1 (insert_section_breaks [(''Raumkosten'', [''1,00''])] 1) \<and>
   same_width 1 (compress_blank_rows [(''Raumkosten'', [''1,00''])]) \<and>
   (\<exists>columns out.
      build_output_table [''Jan/24''] [(''Raumkosten'', [''1,00''])] None = Inr (columns, out) \<and>
      length columns = 2 \<and> list_all (\<lambda>cells. length cells = 2) out) \<and>
   (\<exists>columns out.
      convert_text
        (''Bezeichnung Jan/24 Feb/24 Mrz/24 Apr/24 Mai/24 Jun/24 Jul/24 Aug/24 Sep/24 Okt/24 Nov/24 Dez/24 Jan/25'' @
         [CHR 0x0A] @
         ''Raumkosten 1,00 2,00 3,00 4,00 5,00 6,00 7,00 8,00 9,00 10,00 11,00 12,00 13,00'')
        None = Inr (columns, out) \<and>
      length columns = 14 \<and> list_all (\<lambda>cells. length cells = 14) out)"
proof -
  let ?pt = "''Bezeichnung Jan/24 Feb/24 Mrz/24 Apr/24 Mai/24 Jun/24 Jul/24 Aug/24 Sep/24 Okt/24 Nov/24 Dez/24 Jan/25'' @
         [CHR 0x0A] @
         ''Raumkosten 1,00 2,00 3,00 4,00 5,00 6,00 7,00 8,00 9,00 10,00 11,00 12,00 13,00''"
  let ?r = "[(''Raumkosten'', [''1,00''])]"
  have w: "same_width (length [''Jan/24'']) ?r" by (simp add: same_width_def)
  have b: "build_output_table [''Jan/24''] ?r None =
           Inr ([''Bezeichnung'', ''Jan/24''], [[''Raumkosten'', ''1,00'']])"
    by (simp add: build_output_table_def)
  have c: "\<not> isl (convert_text ?pt None)"
    by code_simp
  then obtain columns out where co: "convert_text ?pt None = Inr (columns, out)"
    by (cases "convert_text ?pt None") auto
  from header_width_invariant [of "[''Jan/24'', ''Feb/24'']" "''Miete 1,00 2,00''" "[]" "{}" None "[]" "[]" "[]" "[]"]
  have 1: "\<exists>rows. parse_rows_from_text ''Miete 1,00 2,00'' [''Jan/24'', ''Feb/24''] = Inr rows \<and>
      same_width 2 rows" by (simp add: eval_nat_numeral)
  from header_width_invariant [of "[''Jan/24'']" ?pt ?r "{}" None "[''Bezeichnung'', ''Jan/24'']"
       "[[''Raumkosten'', ''1,00'']]" columns out] w b co
  show ?thesis using 1 by (auto simp: eval_nat_numeral)
qed

section \<open>Pipeline A: the label of a row\<close>

text \<open>
  C2: the row extractor takes the last N tokens as the values, but it cuts the label at
  the first place where the text of the first retained token occurs in the line
  (\<open>line.find(first_num)\<close>), not at that token's own position. On the line below, with a
  header of 13, the first retained token \<open>0,00\<close> is the second match and starts at
  index 17, so the label up to the token's own position would be \<open>Zinsen 0,00 Rest\<close>; the
  extractor returns \<open>Zinsen\<close>, cut at index 7, where the dropped extra token stands.
\<close>

theorem parse_rows_label_uses_first_occurrence:
  "parse_rows_from_text
     ''Zinsen 0,00 Rest 0,00 1,00 2,00 3,00 4,00 5,00 6,00 7,00 8,00 9,00 10,00 11,00 12,00''
     [''Jan/24'', ''Feb/24'', ''Mrz/24'', ''Apr/24'', ''Mai/24'', ''Jun/24'', ''Jul/24'',
      ''Aug/24'', ''Sep/24'', ''Okt/24'', ''Nov/24'', ''Dez/24'', ''Jan/25''] =
   Inr [(''Zinsen'',
         [''0,00'', ''1,00'', ''2,00'', ''3,00'', ''4,00'', ''5,00'', ''6,00'', ''7,00'',
          ''8,00'', ''9,00'', ''10,00'', ''11,00'', ''12,00''])] \<and>
   finditer DE_NUMBER_RE
     ''Zinsen 0,00 Rest 0,00 1,00 2,00 3,00 4,00 5,00 6,00 7,00 8,00 9,00 10,00 11,00 12,00'' ! 1 =
     (17, ''0,00'') \<and>
   strip (take 17
     ''Zinsen 0,00 Rest 0,00 1,00 2,00 3,00 4,00 5,00 6,00 7,00 8,00 9,00 10,00 11,00 12,00'') =
     ''Zinsen 0,00 Rest''"
  by code_simp

section \<open>Pipeline A: header detection\<close>

text \<open>
  C1: the month tokens of a text are the normalized matches of the month pattern, each
  once, in the order of their first appearance. If some line that contains
  \<open>Bezeichnung\<close> has at least 13 of them, the detector returns the last 13 tokens of the
  first such line; otherwise, if the whole text has at least 13, it returns the last 13
  tokens of the text; otherwise it returns no header. A header it returns has exactly 13
  tokens, all different.
\<close>

theorem detect_month_header_spec:
  "extract_month_tokens s =
     rev (remdups (rev (map normalize_month_token (findall MONTHS_RE s)))) \<and>
   (List.find (\<lambda>l. contains ''Bezeichnung'' l \<and> 13 \<le> length (extract_month_tokens l))
      (splitlines page_text) = Some line \<longrightarrow>
    detect_month_header page_text =
      Some (drop (length (extract_month_tokens line) - 13) (extract_month_tokens line))) \<and>
   (List.find (\<lambda>l. contains ''Bezeichnung'' l \<and> 13 \<le> length (extract_month_tokens l))
      (splitlines page_text) = None \<and> 13 \<le> length (extract_month_tokens page_text) \<longrightarrow>
    detect_month_header page_text =
      Some (drop (length (extract_month_tokens page_text) - 13) (extract_month_tokens page_text))) \<and>
   (List.find (\<lambda>l. contains ''Bezeichnung'' l \<and> 13 \<le> length (extract_month_tokens l))
      (splitlines page_text) = None \<and> length (extract_month_tokens page_text) < 13 \<longrightarrow>
    detect_month_header page_text = None) \<and>
   (detect_month_header page_text = Some header \<longrightarrow> length header = 13 \<and> distinct header)"
  using detect_month_header_Some [of page_text header]
  by (auto simp: extract_month_tokens_eq [symmetric] detect_month_header_def anchor_loop_eq
      Let_def last_n_def)

theorem detect_month_header_spec_witness:
  "detect_month_header
     ''Bezeichnung Jan/24 Feb/24 Mrz/24 Apr/24 Mai/24 Jun/24 Jul/24 Aug/24 Sep/24 Okt/24 Nov/24 Dez/24 Jan/25 Feb/25'' =
     Some [''Feb/24'', ''Mrz/24'', ''Apr/24'', ''Mai/24'', ''Jun/24'', ''Jul/24'', ''Aug/24'',
           ''Sep/24'', ''Okt/24'', ''Nov/24'', ''Dez/24'', ''Jan/25'', ''Feb/25''] \<and>
   detect_month_header
     ''Jan 2024 Feb 2024 Mrz 2024 Apr 2024 Mai 2024 Jun 2024 Jul 2024 Aug 2024 Sep 2024 Okt 2024 Nov 2024 Dez 2024 Jan 2024 Jan 2025'' =
     Some [''Jan 2024'', ''Feb 2024'', ''Mrz 2024'', ''Apr 2024'', ''Mai 2024'', ''Jun 2024'',
           ''Jul 2024'', ''Aug 2024'', ''Sep 2024'', ''Okt 2024'', ''Nov 2024'', ''Dez 2024'',
           ''Jan 2025''] \<and>
   detect_month_header ''Bezeichnung Jan/24 Feb/24'' = None \<and>
   distinct [''Feb/24'', ''Mrz/24'', ''Apr/24'', ''Mai/24'', ''Jun/24'', ''Jul/24'', ''Aug/24'',
             ''Sep/24'', ''Okt/24'', ''Nov/24'', ''Dez/24'', ''Jan/25'', ''Feb/25'']"
proof -
  let ?P = "\<lambda>l. contains ''Bezeichnung'' l \<and> 13 \<le> length (extract_month_tokens l)"
  let ?a = "''Bezeichnung Jan/24 Feb/24 Mrz/24 Apr/24 Mai/24 Jun/24 Jul/24 Aug/24 Sep/24 Okt/24 Nov/24 Dez/24 Jan/25 Feb/25''"
  let ?b = "''Jan 2024 Feb 2024 Mrz 2024 Apr 2024 Mai 2024 Jun 2024 Jul 2024 Aug 2024 Sep 2024 Okt 2024 Nov 2024 Dez 2024 Jan 2024 Jan 2025''"
  let ?c = "''Bezeichnung Jan/24 Feb/24''"
  have a1: "List.find ?P (splitlines ?a) = Some ?a" by code_simp
  have a2: "extract_month_tokens ?a =
     [''Jan/24'', ''Feb/24'', ''Mrz/24'', ''Apr/24'', ''Mai/24'', ''Jun/24'', ''Jul/24'', ''Aug/24'',
      ''Sep/24'', ''Okt/24'', ''Nov/24'', ''Dez/24'', ''Jan/25'', ''Feb/25'']" by code_simp
  have b1: "List.find ?P (splitlines ?b) = None" by code_simp
  have b2: "extract_month_tokens ?b =
     [''Jan 2024'', ''Feb 2024'', ''Mrz 2024'', ''Apr 2024'', ''Mai 2024'', ''Jun 2024'',
      ''Jul 2024'', ''Aug 2024'', ''Sep 2024'', ''Okt 2024'', ''Nov 2024'', ''Dez 2024'',
      ''Jan 2025'']" by code_simp
  have c1: "List.find ?P (splitlines ?c) = None" by code_simp
  have c2: "extract_month_tokens ?c = [''Jan/24'', ''Feb/24'']" by code_simp
  from detect_month_header_spec [of ?a ?a ?a "[]"] a1 a2
  have A: "detect_month_header ?a =
     Some [''Feb/24'', ''Mrz/24'', ''Apr/24'', ''Mai/24'', ''Jun/24'', ''Jul/24'', ''Aug/24'',
           ''Sep/24'', ''Okt/24'', ''Nov/24'', ''Dez/24'', ''Jan/25'', ''Feb/25'']"
    by simp
  from detect_month_header_spec [of ?b ?b ?b "[]"] b1 b2
  have B: "detect_month_header ?b =
     Some [''Jan 2024'', ''Feb 2024'', ''Mrz 2024'', ''Apr 2024'', ''Mai 2024'', ''Jun 2024'',
           ''Jul 2024'', ''Aug 2024'', ''Sep 2024'', ''Okt 2024'', ''Nov 2024'', ''Dez 2024'',
           ''Jan 2025'']"
    by simp
  from detect_month_header_spec [of ?c ?c ?c "[]"] c1 c2
  have C: "detect_month_header ?c = None" by simp
  from detect_month_header_spec [of ?a ?a ?a
      "[''Feb/24'', ''Mrz/24'', ''Apr/24'', ''Mai/24'', ''Jun/24'', ''Jul/24'', ''Aug/24'',
        ''Sep/24'', ''Okt/24'', ''Nov/24'', ''Dez/24'', ''Jan/25'', ''Feb/25'']"] A
  have D: "distinct [''Feb/24'', ''Mrz/24'', ''Apr/24'', ''Mai/24'', ''Jun/24'', ''Jul/24'',
      ''Aug/24'', ''Sep/24'', ''Okt/24'', ''Nov/24'', ''Dez/24'', ''Jan/25'', ''Feb/25'']"
    by blast
  from A B C D show ?thesis by (intro conjI)
qed

section \<open>Pipeline B: the amount parser\<close>

lemma cleaned_amount_None:
  "float_of (cleaned_amount text) = None \<Longrightarrow> parse_amount float_of text signed = 0"
  by (simp add: parse_amount_def cleaned_amount_def Let_def)

lemma cleaned_amount_Some:
  "text \<noteq> [] \<Longrightarrow> float_of (cleaned_amount text) = Some v \<Longrightarrow>
   parse_amount float_of text signed =
     (if signed \<and> endswith (replace text CHR '' '' []) ''H'' then - v else v)"
  by (simp add: parse_amount_def cleaned_amount_def Let_def)

text \<open>
  C6: the amount parser satisfies the test vectors. Where \<open>float("1234.56")\<close> is 1234.56
  and \<open>float("50.00")\<close> is 50, the text \<open>1.234,56\<close> gives 1234.56, the empty text read as
  signed gives 0, and \<open>50,00H\<close> gives -50 read as signed and 50 otherwise. The function is
  total: the only exception of its body, the \<open>ValueError\<close> of \<open>float\<close>, is caught, and
  whenever the cleaned text is not a number the result is 0. In general the result is
  the number of the cleaned text, negated exactly when the text is read as signed and,
  spaces removed, ends with \<open>H\<close>.
\<close>

theorem parse_amount_test_vectors:
  "parse_amount float_of '''' True = 0 \<and>
   (float_of ''1234.56'' = Some 1234.56 \<longrightarrow>
      parse_amount float_of ''1.234,56'' False = 1234.56) \<and>
   (float_of ''50.00'' = Some 50 \<longrightarrow>
      parse_amount float_of ''50,00H'' True = - 50 \<and>
      parse_amount float_of ''50,00H'' False = 50) \<and>
   (float_of (cleaned_amount text) = None \<longrightarrow> parse_amount float_of text signed = 0) \<and>
   (text \<noteq> [] \<and> float_of (cleaned_amount text) = Some v \<longrightarrow>
      parse_amount float_of text signed =
        (if signed \<and> endswith (replace text CHR '' '' []) ''H'' then - v else v))"
proof (intro conjI impI)
  show "parse_amount float_of '''' True = 0"
    by (simp add: parse_amount_def)
next
  assume "float_of ''1234.56'' = Some 1234.56"
  then show "parse_amount float_of ''1.234,56'' False = 1234.56"
    by (simp add: parse_amount_def replace_def endswith_def)
next
  assume a: "float_of ''50.00'' = Some 50"
  then show "parse_amount float_of ''50,00H'' True = - 50"
    by (simp add: parse_amount_def replace_def endswith_def)
  from a show "parse_amount float_of ''50,00H'' False = 50"
    by (simp add: parse_amount_def replace_def endswith_def)
next
  assume "float_of (cleaned_amount text) = None"
  then show "parse_amount float_of text signed = 0"
    by (rule cleaned_amount_None)
next
  assume "text \<noteq> [] \<and> float_of (cleaned_amount text) = Some v"
  then show "parse_amount float_of text signed =
      (if signed \<and> endswith (replace text CHR '' '' []) ''H'' then - v else v)"
    using cleaned_amount_Some by blast
qed

theorem parse_amount_test_vectors_witness:
  "parse_amount
     (\<lambda>s. if s = ''1234.56'' then Some 1234.56 else if s = ''50.00'' then Some 50 else None)
     ''1.234,56'' False = 1234.56 \<and>
   parse_amount
     (\<lambda>s. if s = ''1234.56'' then Some 1234.56 else if s = ''50.00'' then Some 50 else None)
     ''50,00H'' True = - 50 \<and>
   parse_amount
     (\<lambda>s. if s = ''1234.56'' then Some 1234.56 else if s = ''50.00'' then Some 50 else None)
     ''50,00H'' False = 50 \<and>
   parse_amount
     (\<lambda>s. if s = ''1234.56'' then Some 1234.56 else if s = ''50.00'' then Some 50 else None)
     ''12,x4 S'' True = 0 \<and>
   parse_amount
     (\<lambda>s. if s = ''1234.56'' then Some 1234.56 else if s = ''50.00'' then Some 50 else None)
     ''5 0,0 0 H'' True = - 50"
  using
    parse_amount_test_vectors
      [of "\<lambda>s. if s = ''1234.56'' then Some 1234.56 else if s = ''50.00'' then Some 50 else None"
          "''12,x4 S''" True 0]
    parse_amount_test_vectors
      [of "\<lambda>s. if s = ''1234.56'' then Some 1234.56 else if s = ''50.00'' then Some 50 else None"
          "''5 0,0 0 H''" True 50]
  by (simp add: cleaned_amount_def replace_def endswith_def)


end
